theory Spec2Isabelle
  imports Complex_Main "HOL-Library.Char_ord" "HOL-Library.List_Lexorder"
begin

section \<open>Python values, exceptions and dictionaries\<close>

text \<open>
  The statistics dictionaries of the program hold three kinds of Python values: integers
  (unbounded), floats and strings. A float is modelled by the rational number its
  decimal literal or its exact arithmetic result denotes; the rounding of IEEE doubles,
  infinities and NaN are outside the model. A character is a code point below 256.
\<close>

datatype pyval = PInt int | PFloat rat | PStr string

text \<open>
  Exceptions are values. Every constructor stands for a subclass of Python's
  \<^verbatim>\<open>Exception\<close>, so an \<^verbatim>\<open>except Exception\<close> clause catches each of them.
\<close>

datatype exn =
    TypeError
  | KeyError
  | ValueError
  | ZeroDivisionError
  | ConnectionError
  | Timeout
  | JSONDecodeError
  | ParserError

text \<open>
  A dictionary keeps its insertion order (iteration over \<^verbatim>\<open>items()\<close> follows it), so it
  is an association list with distinct keys; \<^verbatim>\<open>d.get(k, default)\<close> and \<^verbatim>\<open>d[k]\<close> read it.
\<close>

type_synonym stats = "(string \<times> pyval) list"
type_synonym qb_data = "(string \<times> stats) list"

definition dict_get :: "('k \<times> 'v) list \<Rightarrow> 'k \<Rightarrow> 'v \<Rightarrow> 'v" where
  "dict_get d k dflt = (case map_of d k of None \<Rightarrow> dflt | Some v \<Rightarrow> v)"

definition dict_index :: "('k \<times> 'v) list \<Rightarrow> 'k \<Rightarrow> exn + 'v" where
  "dict_index d k = (case map_of d k of None \<Rightarrow> Inl KeyError | Some v \<Rightarrow> Inr v)"

definition is_number :: "pyval \<Rightarrow> bool" where
  "is_number v = (case v of PStr _ \<Rightarrow> False | _ \<Rightarrow> True)"

definition is_string :: "pyval \<Rightarrow> bool" where
  "is_string v = (case v of PStr _ \<Rightarrow> True | _ \<Rightarrow> False)"

fun num_of :: "pyval \<Rightarrow> rat" where
  "num_of (PInt i) = of_int i"
| "num_of (PFloat x) = x"
| "num_of (PStr _) = 0"

text \<open>
  \<^verbatim>\<open>a > b\<close>: numbers compare by value (an int with a float too), strings by code points,
  a string with a number raises \<^verbatim>\<open>TypeError\<close>.
\<close>

fun py_gt :: "pyval \<Rightarrow> pyval \<Rightarrow> exn + bool" where
  "py_gt (PStr s) (PStr t) = Inr (t < s)"
| "py_gt (PStr _) _ = Inl TypeError"
| "py_gt _ (PStr _) = Inl TypeError"
| "py_gt a b = Inr (num_of b < num_of a)"

text \<open>\<^verbatim>\<open>a - b\<close>: an int when both are ints, a float otherwise; strings do not subtract.\<close>

fun py_sub :: "pyval \<Rightarrow> pyval \<Rightarrow> exn + pyval" where
  "py_sub (PInt a) (PInt b) = Inr (PInt (a - b))"
| "py_sub (PStr _) _ = Inl TypeError"
| "py_sub _ (PStr _) = Inl TypeError"
| "py_sub a b = Inr (PFloat (num_of a - num_of b))"

text \<open>
  \<^verbatim>\<open>a / b\<close> is true division: the result is a float also for two ints, and a zero
  divisor raises \<^verbatim>\<open>ZeroDivisionError\<close>.
\<close>

fun py_truediv :: "pyval \<Rightarrow> pyval \<Rightarrow> exn + pyval" where
  "py_truediv (PStr _) _ = Inl TypeError"
| "py_truediv _ (PStr _) = Inl TypeError"
| "py_truediv a b =
     (if num_of b = 0 then Inl ZeroDivisionError else Inr (PFloat (num_of a / num_of b)))"

text \<open>\<^verbatim>\<open>x * 100\<close> for the float \<^verbatim>\<open>x\<close> a division returned.\<close>

fun py_mul :: "pyval \<Rightarrow> pyval \<Rightarrow> exn + pyval" where
  "py_mul (PInt a) (PInt b) = Inr (PInt (a * b))"
| "py_mul (PStr _) _ = Inl TypeError"
| "py_mul _ (PStr _) = Inl TypeError"
| "py_mul a b = Inr (PFloat (num_of a * num_of b))"

subsection \<open>Strings\<close>

text \<open>
  \<^verbatim>\<open>str.lower()\<close> on code points below 256: the ASCII capitals and the Latin-1 capitals
  (192 to 222 without the multiplication sign 215) move up by 32.
\<close>

definition py_lower_char :: "char \<Rightarrow> char" where
  "py_lower_char c =
     (let n = (of_char c :: nat)
      in if (65 \<le> n \<and> n \<le> 90) \<or> (192 \<le> n \<and> n \<le> 222 \<and> n \<noteq> 215)
         then char_of (n + 32) else c)"

definition py_lower :: "string \<Rightarrow> string" where
  "py_lower s = map py_lower_char s"

fun starts_with :: "string \<Rightarrow> string \<Rightarrow> bool" where
  "starts_with [] _ = True"
| "starts_with (_ # _) [] = False"
| "starts_with (a # as) (b # bs) = (a = b \<and> starts_with as bs)"

text \<open>\<^verbatim>\<open>s in t\<close> for strings: \<^verbatim>\<open>s\<close> occurs in \<^verbatim>\<open>t\<close> as a contiguous piece.\<close>

fun py_in :: "string \<Rightarrow> string \<Rightarrow> bool" where
  "py_in s [] = (s = [])"
| "py_in s (c # cs) = (starts_with s (c # cs) \<or> py_in s cs)"

section \<open>The static demo dataset (hybrid\_scraper.py, get\_demo\_data)\<close>

definition qb_entry ::
  "string \<Rightarrow> int \<Rightarrow> int \<Rightarrow> int \<Rightarrow> rat \<Rightarrow> int \<Rightarrow> rat \<Rightarrow> int \<Rightarrow> int \<Rightarrow> rat \<Rightarrow> int \<Rightarrow> int \<Rightarrow> stats" where
  "qb_entry tm gp cmp att pct yds ypa td ints rtg sck fum =
     [(''team'', PStr tm),
      (''games_played'', PInt gp),
      (''completions'', PInt cmp),
      (''attempts'', PInt att),
      (''completion_pct'', PFloat pct),
      (''yards'', PInt yds),
      (''yards_per_attempt'', PFloat ypa),
      (''touchdowns'', PInt td),
      (''interceptions'', PInt ints),
      (''rating'', PFloat rtg),
      (''sacked'', PInt sck),
      (''fumbles'', PInt fum)]"

definition get_demo_data :: qb_data where
  "get_demo_data =
     [(''Patrick Mahomes'', qb_entry ''KC'' 17 362 565 (641/10) 4183 (74/10) 31 8 (1052/10) 28 3),
      (''Josh Allen'', qb_entry ''BUF'' 17 359 565 (635/10) 4306 (76/10) 35 14 (926/10) 24 5),
      (''Justin Herbert'', qb_entry ''LAC'' 13 313 477 (656/10) 3104 (65/10) 20 7 (932/10) 29 4),
      (''Lamar Jackson'', qb_entry ''BAL'' 16 307 457 (672/10) 3678 (80/10) 24 7 (1027/10) 19 6),
      (''Joe Burrow'', qb_entry ''CIN'' 10 244 365 (668/10) 2309 (63/10) 15 6 (910/10) 24 2),
      (''Dak Prescott'', qb_entry ''DAL'' 17 410 590 (695/10) 4516 (77/10) 36 9 (1059/10) 39 7),
      (''Jalen Hurts'', qb_entry ''PHI'' 17 352 538 (654/10) 3858 (72/10) 23 15 (891/10) 38 8),
      (''Tua Tagovailoa'', qb_entry ''MIA'' 17 388 560 (693/10) 4624 (83/10) 29 14 (1011/10) 34 4),
      (''Kirk Cousins'', qb_entry ''MIN'' 8 216 311 (695/10) 2331 (75/10) 18 5 (1038/10) 16 2),
      (''Jared Goff'', qb_entry ''DET'' 17 407 605 (673/10) 4575 (76/10) 30 12 (979/10) 30 5)]"

section \<open>Head-to-head comparison (compare.py, QuarterbackComparer)\<close>

definition stats_columns :: "string list" where
  "stats_columns =
     [''yards'', ''touchdowns'', ''interceptions'', ''completion_pct'',
      ''rating'', ''yards_per_attempt'', ''games_played'']"

text \<open>
  \<^verbatim>\<open>_find_qb\<close>: the statistics of the first player, in dictionary order, whose lower-cased
  name contains the lower-cased search string; \<^verbatim>\<open>None\<close> when there is none.
\<close>

fun find_qb :: "qb_data \<Rightarrow> string \<Rightarrow> stats option" where
  "find_qb [] search_name = None"
| "find_qb ((name, st) # rest) search_name =
     (if py_in (py_lower search_name) (py_lower name) then Some st
      else find_qb rest search_name)"

record stat_comparison =
  qb1_value :: pyval
  qb2_value :: pyval
  winner :: string
  difference :: pyval

text \<open>
  The body of the loop over \<^verbatim>\<open>stats_columns\<close> for one statistic both players have:
  the larger value wins, whatever the statistic is, and equal values tie.
\<close>

definition compare_one :: "string \<Rightarrow> string \<Rightarrow> pyval \<Rightarrow> pyval \<Rightarrow> exn + stat_comparison" where
  "compare_one qb1_name qb2_name val1 val2 =
     (case py_gt val1 val2 of
        Inl e \<Rightarrow> Inl e
      | Inr True \<Rightarrow>
          (case py_sub val1 val2 of
             Inl e \<Rightarrow> Inl e
           | Inr d \<Rightarrow> Inr \<lparr>qb1_value = val1, qb2_value = val2, winner = qb1_name, difference = d\<rparr>)
      | Inr False \<Rightarrow>
          (case py_gt val2 val1 of
             Inl e \<Rightarrow> Inl e
           | Inr True \<Rightarrow>
               (case py_sub val2 val1 of
                  Inl e \<Rightarrow> Inl e
                | Inr d \<Rightarrow>
                    Inr \<lparr>qb1_value = val1, qb2_value = val2, winner = qb2_name, difference = d\<rparr>)
           | Inr False \<Rightarrow>
               Inr \<lparr>qb1_value = val1, qb2_value = val2, winner = ''Tie'',
                    difference = PInt 0\<rparr>))"

fun compare_loop ::
  "string \<Rightarrow> string \<Rightarrow> stats \<Rightarrow> stats \<Rightarrow> string list \<Rightarrow> exn + (string \<times> stat_comparison) list" where
  "compare_loop qb1_name qb2_name qb1_stats qb2_stats [] = Inr []"
| "compare_loop qb1_name qb2_name qb1_stats qb2_stats (stat # rest) =
     (case (map_of qb1_stats stat, map_of qb2_stats stat) of
        (Some val1, Some val2) \<Rightarrow>
          (case compare_one qb1_name qb2_name val1 val2 of
             Inl e \<Rightarrow> Inl e
           | Inr c \<Rightarrow>
               (case compare_loop qb1_name qb2_name qb1_stats qb2_stats rest of
                  Inl e \<Rightarrow> Inl e
                | Inr cs \<Rightarrow> Inr ((stat, c) # cs)))
      | _ \<Rightarrow> compare_loop qb1_name qb2_name qb1_stats qb2_stats rest)"

text \<open>
  The dictionary \<^verbatim>\<open>compare_stats\<close> returns: either the one with the key \<^verbatim>\<open>error\<close>, or the
  two players with their statistics and the per-statistic comparisons.
\<close>

datatype comparison =
    NotFound string
  | Compared "string \<times> stats" "string \<times> stats" "(string \<times> stat_comparison) list"

definition compare_stats :: "qb_data \<Rightarrow> string \<Rightarrow> string \<Rightarrow> exn + comparison" where
  "compare_stats data qb1_name qb2_name =
     (case (find_qb data qb1_name, find_qb data qb2_name) of
        (Some qb1_stats, Some qb2_stats) \<Rightarrow>
          (if qb1_stats = [] \<or> qb2_stats = []
           then Inr (NotFound ''One or both quarterbacks not found'')
           else (case compare_loop qb1_name qb2_name qb1_stats qb2_stats stats_columns of
                   Inl e \<Rightarrow> Inl e
                 | Inr cs \<Rightarrow> Inr (Compared (qb1_name, qb1_stats) (qb2_name, qb2_stats) cs)))
      | _ \<Rightarrow> Inr (NotFound ''One or both quarterbacks not found''))"

text \<open>Reading one entry of \<^verbatim>\<open>comparison["comparisons"]\<close> out of the result.\<close>

fun comparison_entry :: "exn + comparison \<Rightarrow> string \<Rightarrow> stat_comparison option" where
  "comparison_entry (Inr (Compared _ _ cs)) stat = map_of cs stat"
| "comparison_entry _ stat = None"

section \<open>The remote source (hybrid\_scraper.py, try\_espn\_api and try\_web\_scraping)\<close>

text \<open>
  The network is a parameter: \<^verbatim>\<open>session.get(url, timeout=10)\<close> either raises (connection
  error, timeout) or returns a response. Of a response the code reads the status code,
  \<^verbatim>\<open>response.json()\<close>, which returns the decoded body or raises, and the parse of
  \<^verbatim>\<open>response.content\<close> by BeautifulSoup, of which only \<^verbatim>\<open>select_one\<close> is used: a parsed
  page is the list of the CSS selectors that find an element in it.
\<close>

datatype json =
    JNull
  | JBool bool
  | JNum rat
  | JStr string
  | JArr "json list"
  | JObj "(string \<times> json) list"

type_synonym soup = "string list"

record response =
  status_code :: int
  json_result :: "exn + json"
  soup_result :: "exn + soup"

type_synonym network = "string \<Rightarrow> exn + response"

definition api_url :: string where
  "api_url = ''https://site.api.espn.com/apis/site/v2/sports/football/nfl/statistics''"

definition urls_to_try :: "string list" where
  "urls_to_try =
     [''https://www.espn.com/nfl/stats/player/_/view/offense/stat/passing/table/passing/sort/passingYards/dir/desc'',
      ''https://www.espn.com/nfl/stats/player/_/stat/passing'',
      ''https://www.espn.com/nfl/stats/player/_/view/offense/stat/passing'']"

text \<open>\<^verbatim>\<open>_parse_api_stats\<close> builds an empty dictionary and returns it, whatever the data.\<close>

definition parse_api_stats :: "json \<Rightarrow> qb_data" where
  "parse_api_stats data = []"

text \<open>
  Every function of this section returns its value together with the URLs it has
  requested, in order, so that a skipped tier shows as an empty list.
  The \<^verbatim>\<open>try\<close> body of \<^verbatim>\<open>try_espn_api\<close> comes first, then the function with its
  \<^verbatim>\<open>except Exception\<close> clause, which turns every exception into the empty dictionary.
\<close>

definition try_espn_api_body :: "network \<Rightarrow> exn + qb_data" where
  "try_espn_api_body net =
     (case net api_url of
        Inl e \<Rightarrow> Inl e
      | Inr response \<Rightarrow>
          (if status_code response = 200
           then (case json_result response of
                   Inl e \<Rightarrow> Inl e
                 | Inr data \<Rightarrow> Inr (parse_api_stats data))
           else Inr []))"

definition try_espn_api :: "network \<Rightarrow> (exn + qb_data) \<times> string list" where
  "try_espn_api net =
     (case try_espn_api_body net of
        Inl e \<Rightarrow> (Inr [], [api_url])
      | Inr qb_stats \<Rightarrow> (Inr qb_stats, [api_url]))"

definition table_selectors :: "string list" where
  \<open>table_selectors = [''table.Table'', ''table'', ''.Table'', ''[class*="table"]'']\<close>

text \<open>The selector loop of \<^verbatim>\<open>_parse_webpage\<close>: it stops at the first selector that matches.\<close>

fun first_selector :: "soup \<Rightarrow> string list \<Rightarrow> string option" where
  "first_selector page [] = None"
| "first_selector page (selector # rest) =
     (if selector \<in> set page then Some selector else first_selector page rest)"

text \<open>
  \<^verbatim>\<open>_parse_webpage\<close>: the table found is not read (the row parser is a comment in the
  source), so the dictionary returned is the empty one it started with.
\<close>

definition parse_webpage :: "exn + soup \<Rightarrow> exn + qb_data" where
  "parse_webpage content =
     (case content of
        Inl e \<Rightarrow> Inl e
      | Inr page \<Rightarrow> (case first_selector page table_selectors of _ \<Rightarrow> Inr []))"

text \<open>
  The \<^verbatim>\<open>for url in urls_to_try\<close> loop: the first URL that answers 200 decides the
  result; another status moves on to the next URL (after a pause, not modelled).
\<close>

fun scrape_loop :: "network \<Rightarrow> string list \<Rightarrow> (exn + qb_data) \<times> string list" where
  "scrape_loop net [] = (Inr [], [])"
| "scrape_loop net (url # rest) =
     (case net url of
        Inl e \<Rightarrow> (Inl e, [url])
      | Inr response \<Rightarrow>
          (if status_code response = 200
           then (parse_webpage (soup_result response), [url])
           else (case scrape_loop net rest of (r, requested) \<Rightarrow> (r, url # requested))))"

definition try_web_scraping :: "network \<Rightarrow> (exn + qb_data) \<times> string list" where
  "try_web_scraping net =
     (case scrape_loop net urls_to_try of
        (Inl e, requested) \<Rightarrow> (Inr [], requested)
      | (Inr qb_stats, requested) \<Rightarrow> (Inr qb_stats, requested))"

section \<open>The store (hybrid\_scraper.py, init\_database and \_save\_to\_database)\<close>

text \<open>
  The two tables are lists of rows in insertion order. Both primary keys are
  \<^verbatim>\<open>INTEGER PRIMARY KEY AUTOINCREMENT\<close>: SQLite keeps, for each table, the largest id it
  has handed out (the counters below) and gives a new row the next one, so an id is
  never used again. A point in time is a number of seconds. A column holds the Python
  value bound to it (the conversions of SQLite's column affinities are not modelled);
  \<^verbatim>\<open>last_updated\<close> can be \<^verbatim>\<open>NULL\<close>.
\<close>

type_synonym timestamp = rat

record qb_row =
  q_id :: nat
  q_espn_id :: string
  q_name :: string
  q_team :: pyval
  q_position :: string
  q_created_at :: timestamp
  q_updated_at :: timestamp

record stats_row =
  s_id :: nat
  s_qb_id :: nat
  s_season :: int
  s_games_played :: pyval
  s_completions :: pyval
  s_attempts :: pyval
  s_completion_pct :: pyval
  s_yards :: pyval
  s_yards_per_attempt :: pyval
  s_touchdowns :: pyval
  s_interceptions :: pyval
  s_rating :: pyval
  s_sacked :: pyval
  s_fumbles :: pyval
  s_last_updated :: "timestamp option"

record database =
  quarterbacks :: "qb_row list"
  quarterbacks_seq :: nat
  quarterback_stats :: "stats_row list"
  quarterback_stats_seq :: nat

text \<open>\<^verbatim>\<open>init_database\<close> on a new file: both tables exist and are empty.\<close>

definition init_database :: database where
  "init_database =
     \<lparr>quarterbacks = [], quarterbacks_seq = 0, quarterback_stats = [], quarterback_stats_seq = 0\<rparr>"

text \<open>The key \<^verbatim>\<open>f"demo_{name.lower().replace(' ', '_')}"\<close>.\<close>

definition demo_espn_id :: "string \<Rightarrow> string" where
  "demo_espn_id name =
     ''demo_'' @ map (\<lambda>c. if c = CHR '' '' then CHR ''_'' else c) (py_lower name)"

text \<open>
  \<^verbatim>\<open>INSERT OR REPLACE INTO quarterbacks (espn_id, name, team, position, updated_at)\<close>:
  the statement gives no id, so the only constraint an existing row can violate is
  \<^verbatim>\<open>UNIQUE\<close> on \<^verbatim>\<open>espn_id\<close>; \<^verbatim>\<open>REPLACE\<close> deletes such a row and then inserts the new
  row, which gets the next id. \<^verbatim>\<open>created_at\<close> takes its default, the time of the insert.
\<close>

definition insert_or_replace_quarterback ::
  "database \<Rightarrow> string \<Rightarrow> string \<Rightarrow> pyval \<Rightarrow> string \<Rightarrow> timestamp \<Rightarrow> database" where
  "insert_or_replace_quarterback db eid name tm pos current_time =
     db\<lparr>quarterbacks :=
          filter (\<lambda>r. q_espn_id r \<noteq> eid) (quarterbacks db) @
          [\<lparr>q_id = quarterbacks_seq db + 1, q_espn_id = eid, q_name = name, q_team = tm,
            q_position = pos, q_created_at = current_time, q_updated_at = current_time\<rparr>],
        quarterbacks_seq := quarterbacks_seq db + 1\<rparr>"

text \<open>\<^verbatim>\<open>SELECT id FROM quarterbacks WHERE espn_id = ?\<close> followed by \<^verbatim>\<open>fetchone()\<close>.\<close>

definition select_qb_id :: "database \<Rightarrow> string \<Rightarrow> nat option" where
  "select_qb_id db eid =
     (case filter (\<lambda>r. q_espn_id r = eid) (quarterbacks db) of
        [] \<Rightarrow> None
      | r # _ \<Rightarrow> Some (q_id r))"

text \<open>
  \<^verbatim>\<open>INSERT OR REPLACE INTO quarterback_stats (qb_id, season, ...)\<close>: a row with the same
  \<^verbatim>\<open>(qb_id, season)\<close> violates the \<^verbatim>\<open>UNIQUE(qb_id, season)\<close> constraint and is deleted
  before the new row is inserted.
\<close>

definition insert_or_replace_stats ::
  "database \<Rightarrow> nat \<Rightarrow> int \<Rightarrow> stats \<Rightarrow> timestamp \<Rightarrow> database" where
  "insert_or_replace_stats db qb season st current_time =
     db\<lparr>quarterback_stats :=
          filter (\<lambda>r. \<not> (s_qb_id r = qb \<and> s_season r = season)) (quarterback_stats db) @
          [\<lparr>s_id = quarterback_stats_seq db + 1, s_qb_id = qb, s_season = season,
            s_games_played = dict_get st ''games_played'' (PInt 0),
            s_completions = dict_get st ''completions'' (PInt 0),
            s_attempts = dict_get st ''attempts'' (PInt 0),
            s_completion_pct = dict_get st ''completion_pct'' (PInt 0),
            s_yards = dict_get st ''yards'' (PInt 0),
            s_yards_per_attempt = dict_get st ''yards_per_attempt'' (PInt 0),
            s_touchdowns = dict_get st ''touchdowns'' (PInt 0),
            s_interceptions = dict_get st ''interceptions'' (PInt 0),
            s_rating = dict_get st ''rating'' (PInt 0),
            s_sacked = dict_get st ''sacked'' (PInt 0),
            s_fumbles = dict_get st ''fumbles'' (PInt 0),
            s_last_updated = Some current_time\<rparr>],
        quarterback_stats_seq := quarterback_stats_seq db + 1\<rparr>"

text \<open>
  \<^verbatim>\<open>_save_to_database\<close>: for each player of the dictionary, in order, the quarterback
  row, the lookup of its id, and the statistics row. \<^verbatim>\<open>stats['team']\<close> raises
  \<^verbatim>\<open>KeyError\<close> when the key is missing, and \<^verbatim>\<open>fetchone()[0]\<close> raises \<^verbatim>\<open>TypeError\<close> when
  no row was found. The time and the season are read from the clock by the caller's
  call, once for all players.
\<close>

fun save_to_database :: "database \<Rightarrow> timestamp \<Rightarrow> int \<Rightarrow> qb_data \<Rightarrow> exn + database" where
  "save_to_database db current_time season [] = Inr db"
| "save_to_database db current_time season ((name, st) # rest) =
     (case dict_index st ''team'' of
        Inl e \<Rightarrow> Inl e
      | Inr tm \<Rightarrow>
          (let db1 = insert_or_replace_quarterback db (demo_espn_id name) name tm ''QB''
                       current_time
           in case select_qb_id db1 (demo_espn_id name) of
                None \<Rightarrow> Inl TypeError
              | Some qb \<Rightarrow>
                  save_to_database (insert_or_replace_stats db1 qb season st current_time)
                    current_time season rest))"

section \<open>The refresh (hybrid\_scraper.py, update\_database)\<close>

record refresh_result =
  returned :: qb_data
  stored :: database
  requested_urls :: "string list"

text \<open>
  The tiers in order. \<^verbatim>\<open>not qb_data\<close> holds for the empty dictionary. The result is
  returned only after the save, so an exception of the save is the outcome of the call.
\<close>

definition acquire :: "network \<Rightarrow> bool \<Rightarrow> (exn + qb_data) \<times> string list" where
  "acquire net force_demo =
     (if \<not> force_demo
      then (case try_espn_api net of
              (Inl e, requested) \<Rightarrow> (Inl e, requested)
            | (Inr qb_data, requested) \<Rightarrow>
                (if qb_data = []
                 then (case try_web_scraping net of
                         (r, requested2) \<Rightarrow> (r, requested @ requested2))
                 else (Inr qb_data, requested)))
      else (Inr [], []))"

definition update_database ::
  "network \<Rightarrow> database \<Rightarrow> timestamp \<Rightarrow> int \<Rightarrow> bool \<Rightarrow> exn + refresh_result" where
  "update_database net db current_time season force_demo =
     (case acquire net force_demo of
        (Inl e, requested) \<Rightarrow> Inl e
      | (Inr qb_data0, requested) \<Rightarrow>
          (let qb_data = (if qb_data0 = [] then get_demo_data else qb_data0)
           in case save_to_database db current_time season qb_data of
                Inl e \<Rightarrow> Inl e
              | Inr db' \<Rightarrow>
                  Inr \<lparr>returned = qb_data, stored = db', requested_urls = requested\<rparr>))"

section \<open>Numeric cells (scraper.py, \_extract\_number)\<close>

text \<open>
  \<^verbatim>\<open>str.isdigit()\<close> on code points below 256 holds for the ten ASCII digits and for the
  superscripts two, three and one (178, 179, 185), which are digits to Unicode but not
  decimal characters.
\<close>

definition ascii_digit :: "char \<Rightarrow> bool" where
  "ascii_digit c = (48 \<le> (of_char c :: nat) \<and> (of_char c :: nat) \<le> 57)"

definition py_isdigit :: "char \<Rightarrow> bool" where
  "py_isdigit c =
     (ascii_digit c \<or> (of_char c :: nat) = 178 \<or> (of_char c :: nat) = 179
      \<or> (of_char c :: nat) = 185)"

definition digits_val :: "string \<Rightarrow> nat" where
  "digits_val s = foldl (\<lambda>a c. 10 * a + ((of_char c :: nat) - 48)) 0 s"

text \<open>
  \<^verbatim>\<open>float(s)\<close> for a string \<^verbatim>\<open>s\<close> of digit and point characters only, which is all the
  caller passes: ASCII digits with at most one point and at least one digit are a
  number, anything else raises \<^verbatim>\<open>ValueError\<close>. The value is the exact decimal.
\<close>

definition float_of_cleaned :: "string \<Rightarrow> exn + rat" where
  "float_of_cleaned s =
     (let ip = takeWhile (\<lambda>c. c \<noteq> CHR ''.'') s;
          r = dropWhile (\<lambda>c. c \<noteq> CHR ''.'') s;
          fp = (if r = [] then [] else tl r)
      in if list_all ascii_digit ip \<and> list_all ascii_digit fp \<and> (ip \<noteq> [] \<or> fp \<noteq> [])
         then Inr (of_nat (digits_val ip) + of_nat (digits_val fp) / 10 ^ length fp)
         else Inl ValueError)"

text \<open>\<^verbatim>\<open>''.join(c for c in text if c.isdigit() or c == '.')\<close>\<close>

definition cleaned :: "string \<Rightarrow> string" where
  "cleaned text = filter (\<lambda>c. py_isdigit c \<or> c = CHR ''.'') text"

text \<open>
  A cell is \<^verbatim>\<open>None\<close> or an element, of which the function reads the stripped text
  \<^verbatim>\<open>cell.get_text(strip=True)\<close> only. The \<^verbatim>\<open>except\<close> clause catches \<^verbatim>\<open>ValueError\<close> alone.
\<close>

definition extract_number :: "string option \<Rightarrow> exn + rat" where
  "extract_number cell =
     (case cell of
        None \<Rightarrow> Inr 0
      | Some text \<Rightarrow>
          (if text = [] \<or> text = ''-'' then Inr 0
           else (case (if cleaned text \<noteq> [] then float_of_cleaned (cleaned text) else Inr 0) of
                   Inl ValueError \<Rightarrow> Inr 0
                 | Inl e \<Rightarrow> Inl e
                 | Inr v \<Rightarrow> Inr v)))"

section \<open>Derived metrics (utils.py, calculate\_efficiency\_metrics)\<close>

definition and_then :: "exn + 'a \<Rightarrow> ('a \<Rightarrow> exn + 'b) \<Rightarrow> exn + 'b" where
  "and_then r f = (case r of Inl e \<Rightarrow> Inl e | Inr x \<Rightarrow> f x)"

text \<open>
  The four metrics in the order the source computes them; each \<^verbatim>\<open>else\<close> branch stores
  the int \<^verbatim>\<open>0\<close> (or the touchdowns themselves), each division a float.
\<close>

definition calculate_efficiency_metrics :: "stats \<Rightarrow> exn + stats" where
  "calculate_efficiency_metrics st =
     (let attempts = dict_get st ''attempts'' (PInt 0);
          completions = dict_get st ''completions'' (PInt 0);
          yards = dict_get st ''yards'' (PInt 0);
          touchdowns = dict_get st ''touchdowns'' (PInt 0);
          interceptions = dict_get st ''interceptions'' (PInt 0)
      in
      and_then (and_then (py_gt attempts (PInt 0)) (\<lambda>b.
                  if b then and_then (py_truediv completions attempts) (\<lambda>q. py_mul q (PInt 100))
                  else Inr (PInt 0))) (\<lambda>completion_percentage.
      and_then (and_then (py_gt attempts (PInt 0)) (\<lambda>b.
                  if b then py_truediv yards attempts else Inr (PInt 0))) (\<lambda>yards_per_attempt.
      and_then (and_then (py_gt interceptions (PInt 0)) (\<lambda>b.
                  if b then py_truediv touchdowns interceptions
                  else and_then (py_gt touchdowns (PInt 0)) (\<lambda>b2.
                         Inr (if b2 then touchdowns else PInt 0)))) (\<lambda>td_int_ratio.
      and_then (and_then (py_gt completions (PInt 0)) (\<lambda>b.
                  if b then py_truediv yards completions else Inr (PInt 0))) (\<lambda>yards_per_completion.
      Inr [(''completion_percentage'', completion_percentage),
           (''yards_per_attempt'', yards_per_attempt),
           (''td_int_ratio'', td_int_ratio),
           (''yards_per_completion'', yards_per_completion)])))))"

section \<open>Top-N ranking (compare.py, get\_top\_qbs)\<close>

text \<open>
  \<^verbatim>\<open>sorted(items, key=..., reverse=True)\<close>. The sort compares keys with \<^verbatim>\<open><\<close> and is
  stable; with \<^verbatim>\<open>reverse=True\<close> it reverses the list, sorts it in ascending order and
  reverses the result, so equal keys keep their order. A list of fewer than two items
  is returned without a comparison. Otherwise the keys have to be comparable: numbers
  among themselves or strings among themselves. With a string and a number among the
  keys some comparison of the two is made, whatever the algorithm (two items next to
  each other in the result have been compared), and it raises \<^verbatim>\<open>TypeError\<close>.
\<close>

fun str_of :: "pyval \<Rightarrow> string" where
  "str_of (PStr s) = s"
| "str_of _ = []"

definition py_sorted_reverse :: "('a \<Rightarrow> pyval) \<Rightarrow> 'a list \<Rightarrow> exn + 'a list" where
  "py_sorted_reverse key xs =
     (if length xs \<le> 1 then Inr xs
      else if list_all (\<lambda>x. is_number (key x)) xs
           then Inr (rev (sort_key (\<lambda>x. num_of (key x)) (rev xs)))
      else if list_all (\<lambda>x. is_string (key x)) xs
           then Inr (rev (sort_key (\<lambda>x. str_of (key x)) (rev xs)))
      else Inl TypeError)"

text \<open>
  The slice \<^verbatim>\<open>xs[:n]\<close>: the first \<^verbatim>\<open>n\<close> items, and for a negative \<^verbatim>\<open>n\<close> all but the
  last \<^verbatim>\<open>-n\<close>.
\<close>

definition py_slice_to :: "'a list \<Rightarrow> int \<Rightarrow> 'a list" where
  "py_slice_to xs n =
     (if 0 \<le> n then take (nat n) xs else take (nat (int (length xs) + n)) xs)"

definition stat_key :: "string \<Rightarrow> string \<times> stats \<Rightarrow> pyval" where
  "stat_key stat x = dict_get (snd x) stat (PInt 0)"

definition get_top_qbs :: "qb_data \<Rightarrow> string \<Rightarrow> int \<Rightarrow> exn + (string \<times> stats) list" where
  "get_top_qbs data stat limit =
     (if data = [] then Inr []
      else and_then (py_sorted_reverse (stat_key stat) data) (\<lambda>sorted_qbs.
             Inr (py_slice_to sorted_qbs limit)))"

text \<open>
  The order in which a sorted result is read: \<^verbatim>\<open>a\<close> is at least \<^verbatim>\<open>b\<close>, for two numbers
  or two strings.
\<close>

fun py_ge :: "pyval \<Rightarrow> pyval \<Rightarrow> bool" where
  "py_ge (PStr s) (PStr t) = (t \<le> s)"
| "py_ge (PStr _) _ = False"
| "py_ge _ (PStr _) = False"
| "py_ge a b = (num_of b \<le> num_of a)"

section \<open>Staleness (db\_manager.py, needs\_update)\<close>

text \<open>
  \<^verbatim>\<open>SELECT MAX(last_updated) FROM quarterback_stats\<close>: the largest value that is not
  \<^verbatim>\<open>NULL\<close>, and \<^verbatim>\<open>NULL\<close> when there is none.
\<close>

fun sql_max :: "timestamp option list \<Rightarrow> timestamp option" where
  "sql_max [] = None"
| "sql_max (None # rest) = sql_max rest"
| "sql_max (Some t # rest) =
     (case sql_max rest of None \<Rightarrow> Some t | Some m \<Rightarrow> Some (max t m))"

text \<open>
  The file at \<^verbatim>\<open>db_path\<close> is absent or holds a database with the statistics table (the
  constructor has created it); the function reads the column \<^verbatim>\<open>last_updated\<close> only.
  \<^verbatim>\<open>now\<close> is \<^verbatim>\<open>datetime.now()\<close>, the age is in seconds.
\<close>

definition needs_update :: "database option \<Rightarrow> timestamp \<Rightarrow> int \<Rightarrow> bool" where
  "needs_update file now max_age_hours =
     (case file of
        None \<Rightarrow> True
      | Some db \<Rightarrow>
          (case sql_max (map s_last_updated (quarterback_stats db)) of
             None \<Rightarrow> True
           | Some last_updated \<Rightarrow> of_int (max_age_hours * 3600) < now - last_updated))"

section \<open>Notions the claims are stated with\<close>

text \<open>
  The number formed from digit and decimal-point characters, read directly, for text
  of code points below 256, where the decimal digits are the ASCII digits: a string is
  a decimal numeral when it consists of ASCII digits and points, has a digit and at
  most one point; its value is the number its digits spell, divided by ten for each
  digit behind the point. These are the strings \<^verbatim>\<open>float()\<close> accepts among those the
  cleaning step produces from such text (lemma \<open>float_of_cleaned_eq\<close> below).
\<close>

definition decimal_numeral :: "string \<Rightarrow> bool" where
  "decimal_numeral s =
     (list_all (\<lambda>c. ascii_digit c \<or> c = CHR ''.'') s \<and> list_ex ascii_digit s
      \<and> count_list s (CHR ''.'') \<le> 1)"

definition decimal_value :: "string \<Rightarrow> rat" where
  "decimal_value s =
     of_nat (digits_val (filter ascii_digit s))
       / 10 ^ length (drop 1 (dropWhile (\<lambda>c. c \<noteq> CHR ''.'') s))"

text \<open>The points in time the statistics table holds in \<^verbatim>\<open>last_updated\<close>.\<close>

definition timestamps :: "database \<Rightarrow> timestamp set" where
  "timestamps db = {t. Some t \<in> set (map s_last_updated (quarterback_stats db))}"

section \<open>Facts about the static dataset, the tiers and the save\<close>

lemma demo_length: "length get_demo_data = 10"
  by (simp add: get_demo_data_def)

lemma demo_nonempty: "get_demo_data \<noteq> []"
  by (simp add: get_demo_data_def)

lemma demo_distinct: "distinct (map fst get_demo_data)"
  by (simp add: get_demo_data_def)

lemma demo_has_team: "list_all (\<lambda>x. map_of (snd x) ''team'' \<noteq> None) get_demo_data"
  by (simp add: get_demo_data_def qb_entry_def)

lemma try_espn_api_empty: "try_espn_api net = (Inr [], [api_url])"
  by (simp add: try_espn_api_def try_espn_api_body_def parse_api_stats_def split: sum.splits)

lemma scrape_loop_empty: "fst (scrape_loop net urls) = Inr qs \<Longrightarrow> qs = []"
  by (induction urls arbitrary: qs)
     (auto simp: parse_webpage_def split: sum.splits if_splits prod.splits)

lemma try_web_scraping_empty: "fst (try_web_scraping net) = Inr []"
proof (cases "scrape_loop net urls_to_try")
  case (Pair r requested)
  show ?thesis
  proof (cases r)
    case (Inl e)
    with Pair show ?thesis by (simp add: try_web_scraping_def)
  next
    case (Inr qs)
    with Pair scrape_loop_empty [of net urls_to_try qs] show ?thesis
      by (simp add: try_web_scraping_def)
  qed
qed

lemma acquire_empty: "fst (acquire net force_demo) = Inr []"
proof (cases force_demo)
  case True
  then show ?thesis by (simp add: acquire_def)
next
  case False
  obtain r requested where w: "try_web_scraping net = (r, requested)"
    by (cases "try_web_scraping net")
  with try_web_scraping_empty [of net] have "r = Inr []" by simp
  with False w show ?thesis by (simp add: acquire_def try_espn_api_empty)
qed

lemma acquire_force_demo: "acquire net True = (Inr [], [])"
  by (simp add: acquire_def)

text \<open>The row just written is found again, so the lookup of its id cannot come back empty.\<close>

lemma select_after_insert:
  "\<exists>i. select_qb_id (insert_or_replace_quarterback db eid name tm pos t) eid = Some i"
  by (simp add: select_qb_id_def insert_or_replace_quarterback_def split: list.splits)

text \<open>The save goes through when every player has a team.\<close>

lemma save_to_database_ok:
  "list_all (\<lambda>x. map_of (snd x) ''team'' \<noteq> None) data \<Longrightarrow>
     \<exists>db'. save_to_database db t season data = Inr db'"
proof (induction data arbitrary: db)
  case Nil
  then show ?case by simp
next
  case (Cons x data)
  obtain name st where x: "x = (name, st)" by (cases x)
  from Cons.prems x obtain tm where tm: "map_of st ''team'' = Some tm" by auto
  obtain i where i:
    "select_qb_id (insert_or_replace_quarterback db (demo_espn_id name) name tm ''QB'' t)
       (demo_espn_id name) = Some i"
    using select_after_insert by blast
  from Cons.prems have "list_all (\<lambda>x. map_of (snd x) ''team'' \<noteq> None) data" by simp
  from Cons.IH [OF this] x tm i show ?case
    by (simp add: dict_index_def)
qed

section \<open>Facts about numeric cells\<close>

lemma point_not_digit: "\<not> ascii_digit (CHR ''.'')"
  by (simp add: ascii_digit_def)

lemma point_not_isdigit: "\<not> py_isdigit (CHR ''.'')"
  by (simp add: py_isdigit_def ascii_digit_def)

lemma dash_not_isdigit: "\<not> py_isdigit (CHR ''-'')"
  by (simp add: py_isdigit_def ascii_digit_def)

lemma foldl_digits:
  "foldl (\<lambda>a c. 10 * a + ((of_char c :: nat) - 48)) acc b
     = acc * 10 ^ length b + foldl (\<lambda>a c. 10 * a + ((of_char c :: nat) - 48)) 0 b"
proof -
  define f where "f = (\<lambda>(a::nat) (c::char). 10 * a + ((of_char c :: nat) - 48))"
  have "foldl f acc b = acc * 10 ^ length b + foldl f 0 b"
  proof (induction b arbitrary: acc)
    case Nil
    then show ?case by simp
  next
    case (Cons c b)
    have "foldl f acc (c # b) = foldl f (f acc c) b" by simp
    also have "\<dots> = f acc c * 10 ^ length b + foldl f 0 b" by (rule Cons.IH)
    finally have l: "foldl f acc (c # b) = f acc c * 10 ^ length b + foldl f 0 b" .
    have "foldl f 0 (c # b) = foldl f (f 0 c) b" by simp
    also have "\<dots> = f 0 c * 10 ^ length b + foldl f 0 b" by (rule Cons.IH)
    finally have r: "foldl f 0 (c # b) = f 0 c * 10 ^ length b + foldl f 0 b" .
    have "f acc c = 10 * acc + f 0 c" by (simp add: f_def)
    with l r show ?case by (simp add: algebra_simps)
  qed
  then show ?thesis by (simp add: f_def)
qed

lemma digits_val_append:
  "digits_val (a @ b) = digits_val a * 10 ^ length b + digits_val b"
  using foldl_digits [of "digits_val a" b] by (simp add: digits_val_def)

lemma digits_val_Nil: "digits_val [] = 0"
  by (simp add: digits_val_def)

lemma all_digits_filter: "list_all ascii_digit xs \<Longrightarrow> filter ascii_digit xs = xs"
  by (induction xs) auto

lemma all_digits_no_point: "list_all ascii_digit xs \<Longrightarrow> CHR ''.'' \<notin> set xs"
  using point_not_digit by (auto simp: list_all_iff)

lemma no_point_count: "CHR ''.'' \<notin> set xs \<Longrightarrow> count_list xs (CHR ''.'') = 0"
  by (induction xs) auto

lemma count_zero_no_point: "count_list xs (CHR ''.'') = 0 \<Longrightarrow> CHR ''.'' \<notin> set xs"
  by (induction xs) (auto split: if_splits)

lemma no_point_all: 
  "CHR ''.'' \<notin> set xs \<Longrightarrow> list_all (\<lambda>c. ascii_digit c \<or> c = CHR ''.'') xs = list_all ascii_digit xs"
  by (induction xs) auto

lemma all_digits_ex: "list_all ascii_digit xs \<Longrightarrow> list_ex ascii_digit xs = (xs \<noteq> [])"
  by (cases xs) auto

text \<open>A string without a point.\<close>

lemma float_no_point:
  assumes "CHR ''.'' \<notin> set s"
  shows "float_of_cleaned s = (if decimal_numeral s then Inr (decimal_value s) else Inl ValueError)"
proof -
  from assms have tw: "takeWhile (\<lambda>c. c \<noteq> CHR ''.'') s = s" by auto
  from assms have dw: "dropWhile (\<lambda>c. c \<noteq> CHR ''.'') s = []" by auto
  show ?thesis
  proof (cases "list_all ascii_digit s \<and> s \<noteq> []")
    case True
    with assms show ?thesis
      by (simp add: float_of_cleaned_def decimal_numeral_def decimal_value_def tw dw
            no_point_all no_point_count all_digits_ex all_digits_filter digits_val_Nil)
  next
    case False
    with assms show ?thesis
      by (auto simp: float_of_cleaned_def decimal_numeral_def tw dw no_point_all
            all_digits_ex)
  qed
qed

text \<open>A string with a first point: \<open>ip\<close> before it, \<open>fp\<close> after it.\<close>

lemma float_with_point:
  assumes "CHR ''.'' \<notin> set ip"
  shows "float_of_cleaned (ip @ CHR ''.'' # fp)
     = (if decimal_numeral (ip @ CHR ''.'' # fp) then Inr (decimal_value (ip @ CHR ''.'' # fp))
        else Inl ValueError)"
proof -
  let ?s = "ip @ CHR ''.'' # fp"
  from assms have "takeWhile (\<lambda>c. c \<noteq> CHR ''.'') ip = ip" by auto
  then have tw: "takeWhile (\<lambda>c. c \<noteq> CHR ''.'') ?s = ip"
    by (simp add: takeWhile_tail)
  from assms have "dropWhile (\<lambda>c. c \<noteq> CHR ''.'') ip = []" by auto
  then have dw: "dropWhile (\<lambda>c. c \<noteq> CHR ''.'') ?s = CHR ''.'' # fp"
    by (simp add: dropWhile_append3)
  have fl: "float_of_cleaned ?s =
      (if list_all ascii_digit ip \<and> list_all ascii_digit fp \<and> (ip \<noteq> [] \<or> fp \<noteq> [])
       then Inr (of_nat (digits_val ip) + of_nat (digits_val fp) / 10 ^ length fp)
       else Inl ValueError)"
    unfolding float_of_cleaned_def tw dw by (simp add: Let_def)
  have dn: "decimal_numeral ?s =
      (list_all ascii_digit ip \<and> list_all ascii_digit fp \<and> (ip \<noteq> [] \<or> fp \<noteq> []))"
  proof (cases "list_all ascii_digit ip \<and> list_all ascii_digit fp")
    case True
    then have a: "list_all (\<lambda>c. ascii_digit c \<or> c = CHR ''.'') ?s"
      by (auto simp: list_all_iff)
    from True have e: "list_ex ascii_digit ?s = (ip \<noteq> [] \<or> fp \<noteq> [])"
      using point_not_digit by (simp add: all_digits_ex)
    from True have c: "count_list ?s (CHR ''.'') \<le> 1"
      by (simp add: no_point_count all_digits_no_point)
    from True a e c show ?thesis
      by (simp add: decimal_numeral_def)
  next
    case False
    show ?thesis
    proof (cases "list_all ascii_digit ip")
      case True
      with False have nf: "\<not> list_all ascii_digit fp" by simp
      have "\<not> (list_all (\<lambda>c. ascii_digit c \<or> c = CHR ''.'') fp \<and> count_list fp (CHR ''.'') = 0)"
      proof
        assume a: "list_all (\<lambda>c. ascii_digit c \<or> c = CHR ''.'') fp \<and> count_list fp (CHR ''.'') = 0"
        then have "CHR ''.'' \<notin> set fp" by (simp add: count_zero_no_point)
        with a have "list_all ascii_digit fp" by (simp add: no_point_all)
        with nf show False by simp
      qed
      with False show ?thesis
        by (auto simp: decimal_numeral_def assms no_point_count)
    next
      case False
      with assms show ?thesis
        by (auto simp: decimal_numeral_def no_point_all)
    qed
  qed
  have dv: "list_all ascii_digit ip \<Longrightarrow> list_all ascii_digit fp \<Longrightarrow>
      decimal_value ?s = of_nat (digits_val ip) + of_nat (digits_val fp) / 10 ^ length fp"
    using point_not_digit
    by (simp add: decimal_value_def dw all_digits_filter digits_val_append add_divide_distrib)
  show ?thesis
    unfolding fl dn using dv by simp
qed

lemma float_of_cleaned_eq:
  "float_of_cleaned s = (if decimal_numeral s then Inr (decimal_value s) else Inl ValueError)"
proof (cases "CHR ''.'' \<in> set s")
  case False
  then show ?thesis by (rule float_no_point)
next
  case True
  define ip where "ip = takeWhile (\<lambda>c. c \<noteq> CHR ''.'') s"
  define r where "r = dropWhile (\<lambda>c. c \<noteq> CHR ''.'') s"
  have s: "s = ip @ r" by (simp add: ip_def r_def)
  have ip: "CHR ''.'' \<notin> set ip" by (auto simp: ip_def dest: set_takeWhileD)
  from True have "r \<noteq> []" by (auto simp: r_def)
  then have "hd r = CHR ''.''" using hd_dropWhile [of "\<lambda>c. c \<noteq> CHR ''.''" s] by (simp add: r_def)
  with \<open>r \<noteq> []\<close> obtain fp where "r = CHR ''.'' # fp" by (cases r) auto
  with s ip float_with_point [of ip fp] show ?thesis by simp
qed

lemma cleaned_not_numeral: "\<not> decimal_numeral []"
  by (simp add: decimal_numeral_def)

lemma extract_number_eq:
  "extract_number cell =
     Inr (case cell of None \<Rightarrow> 0
          | Some text \<Rightarrow> if decimal_numeral (cleaned text) then decimal_value (cleaned text) else 0)"
proof (cases cell)
  case None
  then show ?thesis by (simp add: extract_number_def)
next
  case (Some str)
  have dash: "cleaned ''-'' = []" by (simp add: cleaned_def dash_not_isdigit)
  have nil: "cleaned [] = []" by (simp add: cleaned_def)
  show ?thesis
  proof (cases "str = [] \<or> str = ''-''")
    case True
    with Some dash nil show ?thesis
      by (auto simp: extract_number_def cleaned_not_numeral)
  next
    case False
    with Some show ?thesis
      by (simp add: extract_number_def float_of_cleaned_eq cleaned_not_numeral)
  qed
qed

text \<open>Without a digit character only points are kept, and points alone are no numeral.\<close>

lemma no_isdigit_not_numeral:
  "\<not> list_ex py_isdigit s \<Longrightarrow> \<not> decimal_numeral (cleaned s)"
  by (auto simp: decimal_numeral_def cleaned_def list_ex_iff py_isdigit_def)

section \<open>Facts about the arithmetic of the metrics\<close>

lemma py_gt_num: "is_number a \<Longrightarrow> is_number b \<Longrightarrow> py_gt a b = Inr (num_of b < num_of a)"
  by (cases a; cases b) (simp_all add: is_number_def)

lemma py_truediv_num:
  "is_number a \<Longrightarrow> is_number b \<Longrightarrow> num_of b \<noteq> 0 \<Longrightarrow>
     py_truediv a b = Inr (PFloat (num_of a / num_of b))"
  by (cases a; cases b) (simp_all add: is_number_def)

lemma py_truediv_times_100:
  "is_number a \<Longrightarrow> is_number b \<Longrightarrow> num_of b \<noteq> 0 \<Longrightarrow>
     and_then (py_truediv a b) (\<lambda>q. py_mul q (PInt 100))
       = Inr (PFloat (num_of a / num_of b * 100))"
  by (simp add: py_truediv_num and_then_def)

lemma guarded_div:
  "is_number a \<Longrightarrow> is_number b \<Longrightarrow>
     \<exists>v. and_then (py_gt b (PInt 0)) (\<lambda>c. if c then py_truediv a b else Inr (PInt 0)) = Inr v"
  by (simp add: py_gt_num py_truediv_num and_then_def is_number_def)

lemma guarded_ratio:
  "is_number a \<Longrightarrow> is_number b \<Longrightarrow>
     \<exists>v. and_then (py_gt b (PInt 0)) (\<lambda>c. if c then py_truediv a b
            else and_then (py_gt a (PInt 0)) (\<lambda>c2. Inr (if c2 then a else PInt 0))) = Inr v"
  by (simp add: py_gt_num py_truediv_num and_then_def is_number_def)

section \<open>Facts about the ranking and the newest timestamp\<close>

lemma py_ge_num: "is_number a \<Longrightarrow> is_number b \<Longrightarrow> py_ge a b = (num_of b \<le> num_of a)"
  by (cases a; cases b) (simp_all add: is_number_def)

lemma py_ge_str: "is_string a \<Longrightarrow> is_string b \<Longrightarrow> py_ge a b = (str_of b \<le> str_of a)"
  by (cases a; cases b) (simp_all add: is_string_def)

text \<open>A stable descending sort: the result is in descending order of the key.\<close>

lemma rev_sort_key_desc:
  fixes f :: "'a \<Rightarrow> 'k::linorder"
  shows "sorted_wrt (\<lambda>a b. f b \<le> f a) (rev (sort_key f (rev xs)))"
proof -
  have "sorted (map f (sort_key f (rev xs)))" by (rule sorted_sort_key)
  then have "sorted_wrt (\<lambda>a b. f a \<le> f b) (sort_key f (rev xs))"
    by (simp add: sorted_wrt_map)
  then show ?thesis by (simp add: sorted_wrt_rev)
qed

lemma py_sorted_reverse_sorted:
  assumes "length xs \<le> 1 \<or> list_all (\<lambda>x. is_number (key x)) xs
           \<or> list_all (\<lambda>x. is_string (key x)) xs"
  shows "\<exists>ys. py_sorted_reverse key xs = Inr ys \<and> length ys = length xs \<and>
           sorted_wrt (\<lambda>a b. py_ge (key a) (key b)) ys"
proof (cases "length xs \<le> 1")
  case True
  then show ?thesis by (simp add: py_sorted_reverse_def sorted_wrt01)
next
  case False
  note long = this
  show ?thesis
  proof (cases "list_all (\<lambda>x. is_number (key x)) xs")
    case True
    let ?ys = "rev (sort_key (\<lambda>x. num_of (key x)) (rev xs))"
    have r: "py_sorted_reverse key xs = Inr ?ys"
      using long True by (simp add: py_sorted_reverse_def)
    have s: "sorted_wrt (\<lambda>a b. num_of (key b) \<le> num_of (key a)) ?ys"
      by (rule rev_sort_key_desc)
    have "sorted_wrt (\<lambda>a b. py_ge (key a) (key b)) ?ys"
    proof (rule sorted_wrt_mono_rel [OF _ s])
      fix x y
      assume "x \<in> set ?ys" and "y \<in> set ?ys" and le: "num_of (key y) \<le> num_of (key x)"
      with True have "is_number (key x)" and "is_number (key y)"
        by (auto simp: list_all_iff)
      with le show "py_ge (key x) (key y)" by (simp add: py_ge_num)
    qed
    with r show ?thesis by simp
  next
    case False
    with long assms have str: "list_all (\<lambda>x. is_string (key x)) xs" by simp
    let ?ys = "rev (sort_key (\<lambda>x. str_of (key x)) (rev xs))"
    have r: "py_sorted_reverse key xs = Inr ?ys"
      using long False str by (simp add: py_sorted_reverse_def)
    have s: "sorted_wrt (\<lambda>a b. str_of (key b) \<le> str_of (key a)) ?ys"
      by (rule rev_sort_key_desc)
    have "sorted_wrt (\<lambda>a b. py_ge (key a) (key b)) ?ys"
    proof (rule sorted_wrt_mono_rel [OF _ s])
      fix x y
      assume "x \<in> set ?ys" and "y \<in> set ?ys" and le: "str_of (key y) \<le> str_of (key x)"
      with str have "is_string (key x)" and "is_string (key y)"
        by (auto simp: list_all_iff)
      with le show "py_ge (key x) (key y)" by (simp add: py_ge_str)
    qed
    with r show ?thesis by simp
  qed
qed

lemma finite_stamps: "finite {t. Some t \<in> set xs}"
proof -
  have "{t. Some t \<in> set xs} = the ` (set xs \<inter> {x. x \<noteq> None})"
    by (auto simp: image_iff) force
  then show ?thesis by simp
qed

lemma sql_max_None: "(sql_max xs = None) = ({t. Some t \<in> set xs} = {})"
  by (induction xs rule: sql_max.induct) (auto split: option.splits)

lemma sql_max_Some: "sql_max xs = Some m \<Longrightarrow> m = Max {t. Some t \<in> set xs}"
proof (induction xs arbitrary: m rule: sql_max.induct)
  case 1
  then show ?case by simp
next
  case (2 rest)
  have "{t. Some t \<in> set (None # rest)} = {t. Some t \<in> set rest}" by auto
  with 2 show ?case by simp
next
  case (3 t rest)
  have e: "{u. Some u \<in> set (Some t # rest)} = insert t {u. Some u \<in> set rest}" by auto
  show ?case
  proof (cases "sql_max rest")
    case None
    then have "{u. Some u \<in> set rest} = {}" by (simp add: sql_max_None)
    with 3 None e show ?thesis by simp
  next
    case (Some m')
    with 3 have m': "m' = Max {u. Some u \<in> set rest}" by simp
    from Some have ne: "{u. Some u \<in> set rest} \<noteq> {}" using sql_max_None [of rest] by simp
    from 3 Some have "m = max t m'" by simp
    with m' ne e show ?thesis by (simp add: finite_stamps)
  qed
qed

section \<open>The claims\<close>

text \<open>
  Claim C1, as stated: comparing "Patrick Mahomes" with "Josh Allen" over the static
  dataset, where their interceptions are 8 and 14, reports Mahomes as the winner of
  \<^verbatim>\<open>interceptions\<close>. The code does not: the winner it reports is not Mahomes.
\<close>

theorem compare_mahomes_allen_counterexample:
  "map_of (snd (hd get_demo_data)) ''interceptions'' = Some (PInt 8) \<and>
   map_of (snd (hd (tl get_demo_data))) ''interceptions'' = Some (PInt 14) \<and>
   map_option winner
     (comparison_entry (compare_stats get_demo_data ''Patrick Mahomes'' ''Josh Allen'')
        ''interceptions'') \<noteq> Some ''Patrick Mahomes''"
  by code_simp

text \<open>
  Claim C1, amended: the comparison reports, for \<^verbatim>\<open>interceptions\<close>, the values 8 and 14,
  Josh Allen (the larger value) as the winner, and the difference 6.
\<close>

theorem compare_mahomes_allen:
  "comparison_entry (compare_stats get_demo_data ''Patrick Mahomes'' ''Josh Allen'')
     ''interceptions''
   = Some \<lparr>qb1_value = PInt 8, qb2_value = PInt 14, winner = ''Josh Allen'',
            difference = PInt 6\<rparr>"
  by code_simp

text \<open>
  Claim C2: for every value of \<^verbatim>\<open>force_demo\<close> and every behaviour of the network (so
  every outcome of the API and scrape tiers), from every state of the store,
  \<^verbatim>\<open>update_database\<close> returns, and the dictionary it returns is not empty.
\<close>

theorem update_database_nonempty:
  "\<exists>r. update_database net db current_time season force_demo = Inr r \<and> returned r \<noteq> []"
proof -
  obtain requested where a: "acquire net force_demo = (Inr [], requested)"
    using acquire_empty [of net force_demo] by (cases "acquire net force_demo") simp
  obtain db' where s: "save_to_database db current_time season get_demo_data = Inr db'"
    using save_to_database_ok [OF demo_has_team] by blast
  from a s show ?thesis by (simp add: update_database_def demo_nonempty)
qed

text \<open>
  Claim C3: with \<^verbatim>\<open>force_demo=True\<close> the refresh requests no URL (neither tier runs),
  saves the static dataset and returns exactly that dataset, which has 10 entries
  under 10 different names.
\<close>

theorem update_database_force_demo:
  "\<exists>db'. save_to_database db current_time season get_demo_data = Inr db' \<and>
      update_database net db current_time season True =
        Inr \<lparr>returned = get_demo_data, stored = db', requested_urls = []\<rparr> \<and>
      length get_demo_data = 10 \<and> distinct (map fst get_demo_data)"
proof -
  obtain db' where s: "save_to_database db current_time season get_demo_data = Inr db'"
    using save_to_database_ok [OF demo_has_team] by blast
  then show ?thesis
    by (simp add: update_database_def acquire_force_demo demo_length demo_distinct)
qed

text \<open>
  Claim C5: whatever the network does (a request that raises, any status code, a body
  that does not decode, a page that does not parse), the API fetch and the web scrape
  both return the empty dictionary; neither lets an exception through.
\<close>

theorem fetch_paths_absorb_failures:
  "fst (try_espn_api net) = Inr [] \<and> fst (try_web_scraping net) = Inr []"
  by (simp add: try_espn_api_empty try_web_scraping_empty)

text \<open>
  Claim C6, as stated: every cell that is not empty, not a dash and has a digit yields
  the number formed from its digit and decimal-point characters. The cell \<^verbatim>\<open>1.2.3\<close>
  has digits, its digit and point characters are \<^verbatim>\<open>1.2.3\<close>, which is no number:
  \<^verbatim>\<open>float()\<close> rejects it, and the function returns zero.
\<close>

theorem extract_number_counterexample:
  "list_ex ascii_digit ''1.2.3'' \<and> cleaned ''1.2.3'' = ''1.2.3'' \<and>
   \<not> decimal_numeral ''1.2.3'' \<and> extract_number (Some ''1.2.3'') = Inr 0 \<and>
   list_ex py_isdigit ''1.2.3'' \<and> float_of_cleaned (cleaned ''1.2.3'') = Inl ValueError"
  by (simp add: extract_number_eq float_of_cleaned_eq decimal_numeral_def cleaned_def
        py_isdigit_def ascii_digit_def)

text \<open>
  Claim C6, amended: \<^verbatim>\<open>_extract_number\<close> never raises. It returns zero for a missing
  cell and for a text that is empty, a dash or without a digit character (a character
  for which \<^verbatim>\<open>isdigit()\<close> holds). For every other cell it returns the number \<^verbatim>\<open>float()\<close>
  reads from the cell's digit and decimal-point characters when \<^verbatim>\<open>float()\<close> accepts
  them, and zero when \<^verbatim>\<open>float()\<close> rejects them.
\<close>

theorem extract_number_fail_soft:
  "(\<exists>r. extract_number cell = Inr r)
   \<and> extract_number None = Inr 0
   \<and> (text = [] \<or> text = ''-'' \<or> \<not> list_ex py_isdigit text
        \<longrightarrow> extract_number (Some text) = Inr 0)
   \<and> (float_of_cleaned (cleaned text) = Inr v \<longrightarrow> extract_number (Some text) = Inr v)
   \<and> (float_of_cleaned (cleaned text) = Inl e \<longrightarrow> extract_number (Some text) = Inr 0)"
proof -
  have a: "\<exists>r. extract_number cell = Inr r"
    by (simp add: extract_number_eq)
  have n: "extract_number None = Inr 0"
    by (simp add: extract_number_def)
  have z: "extract_number (Some text) = Inr 0"
    if "text = [] \<or> text = ''-'' \<or> \<not> list_ex py_isdigit text"
  proof -
    from that have "\<not> list_ex py_isdigit text"
      by (auto simp: py_isdigit_def ascii_digit_def)
    then show ?thesis
      by (simp add: extract_number_eq no_isdigit_not_numeral)
  qed
  have acc: "extract_number (Some text) = Inr v"
    if "float_of_cleaned (cleaned text) = Inr v"
    using that by (simp add: extract_number_eq float_of_cleaned_eq split: if_splits)
  have rej: "extract_number (Some text) = Inr 0"
    if "float_of_cleaned (cleaned text) = Inl e"
    using that by (simp add: extract_number_eq float_of_cleaned_eq split: if_splits)
  from a n z acc rej show ?thesis by blast
qed

text \<open>
  The theorem at the cell \<^verbatim>\<open>12.5%\<close>, whose digit and point characters \<^verbatim>\<open>float()\<close> reads
  as 12.5, at the cell \<^verbatim>\<open>N/A\<close>, which has no digit character, and at the cell
  \<^verbatim>\<open>1.2.3\<close>, whose digit and point characters \<^verbatim>\<open>float()\<close> rejects.
\<close>

theorem extract_number_fail_soft_witness:
  "extract_number (Some ''12.5%'') = Inr (25 / 2) \<and> extract_number (Some ''N/A'') = Inr 0
   \<and> extract_number (Some ''1.2.3'') = Inr 0"
proof -
  have h1: "float_of_cleaned (cleaned ''12.5%'') = Inr (25 / 2)"
    by (simp add: float_of_cleaned_def Let_def cleaned_def py_isdigit_def ascii_digit_def
          digits_val_def)
  have h2: "\<not> list_ex py_isdigit ''N/A''"
    by (simp add: py_isdigit_def ascii_digit_def)
  have h3: "float_of_cleaned (cleaned ''1.2.3'') = Inl ValueError"
    by (simp add: float_of_cleaned_def Let_def cleaned_def py_isdigit_def ascii_digit_def)
  from h1 extract_number_fail_soft [of "None" "''12.5%''" "25 / 2" ValueError]
  have 1: "extract_number (Some ''12.5%'') = Inr (25 / 2)" by blast
  from h2 extract_number_fail_soft [of "None" "''N/A''" 0 ValueError]
  have 2: "extract_number (Some ''N/A'') = Inr 0" by blast
  from h3 extract_number_fail_soft [of "None" "''1.2.3''" 0 ValueError]
  have 3: "extract_number (Some ''1.2.3'') = Inr 0" by blast
  from 1 2 3 show ?thesis by simp
qed

text \<open>
  Claim C7: for a statistics record whose counters are numbers, the metrics are
  computed without an exception (so no division by zero happens), and the completion
  percentage is \<^verbatim>\<open>100 * completions / attempts\<close> when attempts are positive and 0
  otherwise, in particular when attempts are 0. A missing counter counts as 0.
\<close>

theorem completion_percentage:
  assumes "is_number (dict_get st ''attempts'' (PInt 0))"
    and "is_number (dict_get st ''completions'' (PInt 0))"
    and "is_number (dict_get st ''yards'' (PInt 0))"
    and "is_number (dict_get st ''touchdowns'' (PInt 0))"
    and "is_number (dict_get st ''interceptions'' (PInt 0))"
  shows "\<exists>m v. calculate_efficiency_metrics st = Inr m \<and>
           map_of m ''completion_percentage'' = Some v \<and>
           num_of v =
             (if 0 < num_of (dict_get st ''attempts'' (PInt 0))
              then 100 * num_of (dict_get st ''completions'' (PInt 0))
                     / num_of (dict_get st ''attempts'' (PInt 0))
              else 0)"
proof -
  define a where "a = dict_get st ''attempts'' (PInt 0)"
  define c where "c = dict_get st ''completions'' (PInt 0)"
  define y where "y = dict_get st ''yards'' (PInt 0)"
  define t where "t = dict_get st ''touchdowns'' (PInt 0)"
  define i where "i = dict_get st ''interceptions'' (PInt 0)"
  note n = assms [folded a_def c_def y_def t_def i_def]
  define cp where "cp = (if 0 < num_of a then PFloat (num_of c / num_of a * 100) else PInt 0)"
  have z: "is_number (PInt 0)" by (simp add: is_number_def)
  have 1: "and_then (py_gt a (PInt 0)) (\<lambda>b.
              if b then and_then (py_truediv c a) (\<lambda>q. py_mul q (PInt 100)) else Inr (PInt 0))
           = Inr cp"
  proof (cases "0 < num_of a")
    case True
    then have "num_of a \<noteq> 0" by simp
    with True n show ?thesis
      by (simp add: py_gt_num z py_truediv_num and_then_def cp_def)
  next
    case False
    with n show ?thesis
      by (simp add: py_gt_num z and_then_def cp_def)
  qed
  obtain v2 where 2: "and_then (py_gt a (PInt 0)) (\<lambda>b. if b then py_truediv y a else Inr (PInt 0)) = Inr v2"
    using guarded_div [of y a] n by blast
  obtain v3 where 3: "and_then (py_gt i (PInt 0)) (\<lambda>b. if b then py_truediv t i
            else and_then (py_gt t (PInt 0)) (\<lambda>b2. Inr (if b2 then t else PInt 0))) = Inr v3"
    using guarded_ratio [of t i] n by blast
  obtain v4 where 4: "and_then (py_gt c (PInt 0)) (\<lambda>b. if b then py_truediv y c else Inr (PInt 0)) = Inr v4"
    using guarded_div [of y c] n by blast
  have "calculate_efficiency_metrics st =
      Inr [(''completion_percentage'', cp), (''yards_per_attempt'', v2),
           (''td_int_ratio'', v3), (''yards_per_completion'', v4)]"
    unfolding calculate_efficiency_metrics_def Let_def
    unfolding a_def [symmetric] c_def [symmetric] y_def [symmetric] t_def [symmetric]
      i_def [symmetric]
    unfolding 1 2 3 4 by (simp add: and_then_def)
  moreover have "num_of cp = (if 0 < num_of a then 100 * num_of c / num_of a else 0)"
    by (simp add: cp_def)
  ultimately show ?thesis
    unfolding a_def c_def by simp
qed

text \<open>The theorem at the first record of the static dataset: 362 of 565.\<close>

theorem completion_percentage_witness:
  "\<exists>m v. calculate_efficiency_metrics (snd (hd get_demo_data)) = Inr m \<and>
      map_of m ''completion_percentage'' = Some v \<and> num_of v = 100 * 362 / 565"
  using completion_percentage [of "snd (hd get_demo_data)"]
  by (simp add: get_demo_data_def qb_entry_def dict_get_def is_number_def)

text \<open>
  Claim C10: for every cell \<^verbatim>\<open>_extract_number\<close> returns a number that is not
  negative; the minus sign is dropped with the other characters, so the cell \<^verbatim>\<open>-5\<close>
  yields 5.
\<close>

theorem extract_number_nonneg:
  "(\<exists>v. extract_number cell = Inr v \<and> 0 \<le> v) \<and> extract_number (Some ''-5'') = Inr 5"
proof -
  have "0 \<le> decimal_value s" for s by (simp add: decimal_value_def)
  then have g: "\<exists>v. extract_number cell = Inr v \<and> 0 \<le> v"
    by (simp add: extract_number_eq split: option.splits)
  have "extract_number (Some ''-5'') = Inr 5"
    by (simp add: extract_number_eq decimal_numeral_def decimal_value_def cleaned_def
          py_isdigit_def ascii_digit_def digits_val_def)
  with g show ?thesis by simp
qed

text \<open>
  Claim C4 on the code: the static dataset's first player is saved into a new store,
  and then saved again with the same time and season. After the first save the player
  has the id 1 and one statistics row, for player 1. The second save replaces the
  player row by a row with the new id 2 and adds a statistics row for player 2; the
  row for player 1 stays, so the statistics table has two rows instead of one.
\<close>

theorem upsert_twice_evaluated:
  "map_sum id (\<lambda>db. (map q_id (quarterbacks db), map s_qb_id (quarterback_stats db)))
     (save_to_database init_database 100 2024 [hd get_demo_data]) = Inr ([1], [1]) \<and>
   map_sum id (\<lambda>db. (map q_id (quarterbacks db), map s_qb_id (quarterback_stats db)))
     (and_then (save_to_database init_database 100 2024 [hd get_demo_data])
        (\<lambda>db. save_to_database db 100 2024 [hd get_demo_data])) = Inr ([2], [1, 2])"
  by code_simp

text \<open>
  Claim C8, as stated: for every mapping, statistic and limit \<open>N\<close> the ranking has
  \<open>min(N, number of players)\<close> entries in descending order. With the limit -1 the
  ranking of the ten players of the static dataset has nine entries, while the minimum
  is -1; and for two players of which one has a string and the other no value for the
  statistic, the sort raises \<^verbatim>\<open>TypeError\<close>.
\<close>

theorem get_top_qbs_counterexample:
  "map_sum id length (get_top_qbs get_demo_data ''yards'' (- 1)) = Inr 9 \<and>
   min (- 1) (int (length get_demo_data)) = - 1 \<and>
   get_top_qbs [(''A'', [(''team'', PStr ''KC'')]), (''B'', [])] ''team'' 5 = Inl TypeError"
  by code_simp

text \<open>
  Claim C8, amended: for every limit \<open>N\<close> that is not negative, and every mapping
  whose values for the statistic can be compared with each other (all numbers, or all
  strings, a missing value counting as 0; or fewer than two players), the ranking is
  returned, has \<open>min(N, number of players)\<close> entries and is in descending order of
  the statistic's value.
\<close>

theorem get_top_qbs_sorted:
  assumes "0 \<le> limit"
    and "length data \<le> 1 \<or> list_all (\<lambda>x. is_number (stat_key stat x)) data
         \<or> list_all (\<lambda>x. is_string (stat_key stat x)) data"
  shows "\<exists>ys. get_top_qbs data stat limit = Inr ys \<and>
           length ys = min (nat limit) (length data) \<and>
           sorted_wrt (\<lambda>a b. py_ge (stat_key stat a) (stat_key stat b)) ys"
proof (cases "data = []")
  case True
  then show ?thesis by (simp add: get_top_qbs_def)
next
  case False
  from py_sorted_reverse_sorted [OF assms(2)] obtain zs where
    z: "py_sorted_reverse (stat_key stat) data = Inr zs" and
    l: "length zs = length data" and
    s: "sorted_wrt (\<lambda>a b. py_ge (stat_key stat a) (stat_key stat b)) zs"
    by blast
  from s have "sorted_wrt (\<lambda>a b. py_ge (stat_key stat a) (stat_key stat b)) (take (nat limit) zs)"
    by (rule sorted_wrt_take)
  with False z l assms(1) show ?thesis
    by (simp add: get_top_qbs_def and_then_def py_slice_to_def)
qed

text \<open>The theorem for the three players of the static dataset with the most yards.\<close>

theorem get_top_qbs_sorted_witness:
  "\<exists>ys. get_top_qbs get_demo_data ''yards'' 3 = Inr ys \<and> length ys = 3 \<and>
      sorted_wrt (\<lambda>a b. py_ge (stat_key ''yards'' a) (stat_key ''yards'' b)) ys"
proof -
  have h1: "(0::int) \<le> 3" by simp
  have h2: "length get_demo_data \<le> 1
      \<or> list_all (\<lambda>x. is_number (stat_key ''yards'' x)) get_demo_data
      \<or> list_all (\<lambda>x. is_string (stat_key ''yards'' x)) get_demo_data"
    by (simp add: get_demo_data_def qb_entry_def stat_key_def dict_get_def is_number_def)
  from get_top_qbs_sorted [OF h1 h2] show ?thesis by (simp add: demo_length)
qed

text \<open>
  Claim C9: \<^verbatim>\<open>needs_update\<close> is true exactly when the file does not exist, or the
  statistics table holds no time in \<^verbatim>\<open>last_updated\<close> (no rows, or only \<^verbatim>\<open>NULL\<close>s), or
  the newest of these times is more than \<^verbatim>\<open>max_age_hours\<close> hours before now; in every
  other case it is false.
\<close>

theorem needs_update_iff:
  "needs_update file now max_age_hours =
     (file = None \<or>
      (\<exists>db. file = Some db \<and>
         (timestamps db = {} \<or> of_int (max_age_hours * 3600) < now - Max (timestamps db))))"
proof (cases "file")
  case None
  then show ?thesis by (simp add: needs_update_def)
next
  case (Some db)
  note f = this
  show ?thesis
  proof (cases "sql_max (map s_last_updated (quarterback_stats db))")
    case None
    then have "timestamps db = {}"
      using sql_max_None [of "map s_last_updated (quarterback_stats db)"]
      by (simp add: timestamps_def)
    with f None show ?thesis
      by (simp add: needs_update_def)
  next
    case (Some m)
    then have ne: "timestamps db \<noteq> {}"
      using sql_max_None [of "map s_last_updated (quarterback_stats db)"]
      by (simp add: timestamps_def)
    from Some have "m = Max (timestamps db)"
      unfolding timestamps_def by (rule sql_max_Some)
    with Some ne f show ?thesis
      by (simp add: needs_update_def)
  qed
qed

text \<open>
  The theorem at four stores: no file; a new store without rows; a store whose only
  row was written at time 0, read one hour later and 25 hours later, with a limit of
  24 hours.
\<close>

theorem needs_update_iff_witness:
  "needs_update None 0 24 \<and>
   needs_update (Some init_database) 0 24 \<and>
   \<not> needs_update (Some (insert_or_replace_stats init_database 1 2024 [] 0)) 3600 24 \<and>
   needs_update (Some (insert_or_replace_stats init_database 1 2024 [] 0)) 90000 24"
  using needs_update_iff [of None 0 24]
    needs_update_iff [of "Some init_database" 0 24]
    needs_update_iff [of "Some (insert_or_replace_stats init_database 1 2024 [] 0)" 3600 24]
    needs_update_iff [of "Some (insert_or_replace_stats init_database 1 2024 [] 0)" 90000 24]
  by (simp add: timestamps_def init_database_def insert_or_replace_stats_def)

end
